theory Spec2Isabelle
  imports Complex_Main "HOL-Library.Sublist"
begin

section \<open>Python values used by the scoring code\<close>

text \<open>
  Numbers are modelled as exact reals: Python's \<open>int\<close> and \<open>float\<close> are both embedded in
  \<open>real\<close>, and \<open>True\<close>/\<open>False\<close> count as 1 and 0 as they do in Python arithmetic.
  The model covers the finite numbers: NaN and the two infinities are no values of it, and
  the rounding and the overflow of the floats are not modelled. A theorem about all inputs
  of a scorer names the range of numbers it covers (\<open>regular\<close>, below).
  A \<open>str\<close> is a \<open>string\<close>; case folding is modelled on the ASCII letters.
  A \<open>dict\<close> is the list of its items in insertion order (keys distinct); \<open>d.get(k, v)\<close> is
  \<open>get d k v\<close>, and an empty dict is the empty list.
\<close>

type_synonym 'v dict = "(string \<times> 'v) list"

definition get :: "'v dict \<Rightarrow> string \<Rightarrow> 'v \<Rightarrow> 'v" where
  "get d k dflt = (case map_of d k of None \<Rightarrow> dflt | Some v \<Rightarrow> v)"

definition get_or :: "'a option \<Rightarrow> 'a \<Rightarrow> 'a" where
  \<comment> \<open>\<open>record.get(field, default)\<close> for a record whose field may be absent\<close>
  "get_or v dflt = (case v of None \<Rightarrow> dflt | Some x \<Rightarrow> x)"

definition of_bool_real :: "bool \<Rightarrow> real" where
  "of_bool_real b = (if b then 1 else 0)"

definition lower_char :: "char \<Rightarrow> char" where
  "lower_char c =
     (case map_of (zip ''ABCDEFGHIJKLMNOPQRSTUVWXYZ'' ''abcdefghijklmnopqrstuvwxyz'') c of
        None \<Rightarrow> c | Some d \<Rightarrow> d)"

definition lower :: "string \<Rightarrow> string" where
  "lower s = map lower_char s"

definition py_in :: "string \<Rightarrow> string \<Rightarrow> bool" where
  \<comment> \<open>\<open>sub in s\<close> on strings: \<open>sub\<close> occurs in \<open>s\<close> as a contiguous substring\<close>
  "py_in sub s = sublist sub s"

definition startswith :: "string \<Rightarrow> string \<Rightarrow> bool" where
  "startswith s p = prefix p s"

definition any_in :: "string list \<Rightarrow> string \<Rightarrow> bool" where
  \<comment> \<open>\<open>any(kw in text for kw in kws)\<close>\<close>
  "any_in kws text = list_ex (\<lambda>kw. py_in kw text) kws"

definition py_trunc :: "real \<Rightarrow> int" where
  \<comment> \<open>\<open>int(x)\<close> on a number: truncation towards zero\<close>
  "py_trunc x = (if 0 \<le> x then \<lfloor>x\<rfloor> else \<lceil>x\<rceil>)"

definition round1 :: "real \<Rightarrow> real" where
  \<comment> \<open>\<open>round(x, 1)\<close>: nearest multiple of 0.1, ties to the even digit\<close>
  "round1 x =
     (let y = x * 10; f = \<lfloor>y\<rfloor>; d = y - of_int f
      in of_int (if d < 1 / 2 then f else if 1 / 2 < d then f + 1
                 else if even f then f else f + 1) / 10)"

subsection \<open>Parsing a year: \<open>int(text)\<close>\<close>

definition is_space :: "char \<Rightarrow> bool" where
  "is_space c = (c \<in> set [CHR '' '', CHR 0x09, CHR 0x0A, CHR 0x0B, CHR 0x0C, CHR 0x0D,
                            CHR 0x1C, CHR 0x1D, CHR 0x1E, CHR 0x1F])"

definition strip :: "string \<Rightarrow> string" where
  "strip s = rev (dropWhile is_space (rev (dropWhile is_space s)))"

definition digit_val :: "char \<Rightarrow> nat option" where
  "digit_val c = map_of (zip ''0123456789'' [0, 1, 2, 3, 4, 5, 6, 7, 8, 9]) c"

fun digits_acc :: "nat \<Rightarrow> string \<Rightarrow> nat option" where
  "digits_acc acc [] = Some acc"
| "digits_acc acc [c] = (case digit_val c of None \<Rightarrow> None | Some v \<Rightarrow> Some (acc * 10 + v))"
| "digits_acc acc (c # d # ds) =
     (if c = CHR ''_''
      then (case digit_val d of None \<Rightarrow> None | Some v \<Rightarrow> digits_acc (acc * 10 + v) ds)
      else (case digit_val c of None \<Rightarrow> None | Some v \<Rightarrow> digits_acc (acc * 10 + v) (d # ds)))"

definition unsigned_int :: "string \<Rightarrow> nat option" where
  \<comment> \<open>decimal digits, single underscores allowed between two digits\<close>
  "unsigned_int s =
     (case s of [] \<Rightarrow> None
      | c # cs \<Rightarrow> (case digit_val c of None \<Rightarrow> None | Some v \<Rightarrow> digits_acc v cs))"

definition py_int :: "string \<Rightarrow> int option" where
  \<comment> \<open>\<open>int(s)\<close> on a string; \<open>None\<close> stands for the \<open>ValueError\<close>\<close>
  "py_int s =
     (case strip s of [] \<Rightarrow> None
      | c # cs \<Rightarrow>
          if c = CHR ''-'' then map_option (\<lambda>n. - int n) (unsigned_int cs)
          else if c = CHR ''+'' then map_option int (unsigned_int cs)
          else map_option int (unsigned_int (c # cs)))"

section \<open>Holistic career score (\<open>holistic_score.py\<close>)\<close>

subsection \<open>Inputs\<close>

text \<open>
  The metric dictionaries (\<open>resume_analysis\<close>, \<open>skill_proficiency\<close>, \<open>github_stats\<close>,
  \<open>learning_progress\<close>, \<open>interview_scores\<close>) map keys to numbers. The list entries
  (projects, certifications, activities) are dictionaries with text fields; each is a
  record whose fields are optional, \<open>None\<close> standing for an absent key.
\<close>

record project =
  p_name :: "string option"
  p_description :: "string option"
  p_github_url :: "string option"
  p_demo_url :: "string option"
  p_stars :: "real option"
  p_language :: "string option"

record certification =
  c_name :: "string option"
  c_provider :: "string option"
  c_date :: "string option"

record activity =
  a_role :: "string option"
  a_achievements :: "string list option"
  a_impact :: "string option"

record profile_data =
  pd_resume_analysis :: "real dict option"
  pd_skills :: "string list option"
  pd_skill_proficiency :: "real dict option"
  pd_projects :: "project list option"
  pd_certifications :: "certification list option"
  pd_extracurricular :: "activity list option"
  pd_github_stats :: "real dict option"
  pd_learning_progress :: "real dict option"
  pd_interview_scores :: "real dict option"

definition truthy :: "'a list option \<Rightarrow> bool" where
  \<comment> \<open>truth value of \<open>d.get(key)\<close> for a text or list field\<close>
  "truthy v = (case v of None \<Rightarrow> False | Some s \<Rightarrow> s \<noteq> [])"

subsection \<open>Category scores\<close>

text \<open>
  The \<open>details\<close> text of a score is an f-string; it is kept as its pieces, the
  interpolated numbers not rendered.
\<close>

datatype piece = Txt string | Num real

record score_data =
  percentage :: real
  details :: "piece list"

definition score_resume :: "real dict \<Rightarrow> score_data" where
  "score_resume resume_analysis =
     (let score = 0;
          ats_score = get resume_analysis ''ats_score'' 0;
          score = score + (ats_score / 100) * 40;
          has_summary = get resume_analysis ''has_summary'' 0;
          has_quantifiable = get resume_analysis ''has_quantifiable_achievements'' 0;
          has_keywords = of_bool_real (get resume_analysis ''keyword_density'' 0 > 0.5);
          content_score = sum_list [has_summary, has_quantifiable, has_keywords] / 3 * 30;
          score = score + content_score;
          formatting_score = get resume_analysis ''formatting_score'' 70;
          score = score + (formatting_score / 100) * 20;
          sections = get resume_analysis ''sections_count'' 0;
          completeness = min (sections / 5) 1 * 10;
          score = score + completeness
      in \<lparr>percentage = min score 100,
          details = [Txt ''Resume quality and ATS compatibility'']\<rparr>)"

definition tech_keywords :: "string list" where
  "tech_keywords = [''python'', ''java'', ''javascript'', ''sql'', ''react'']"

definition soft_keywords :: "string list" where
  "soft_keywords = [''communication'', ''leadership'', ''teamwork'']"

definition score_skills :: "string list \<Rightarrow> real dict \<Rightarrow> score_data" where
  "score_skills skills proficiency =
     (let score = 0;
          skill_count = length skills;
          count_score = min (real skill_count / 15) 1 * 30;
          score = score + count_score;
          has_tech = list_ex (\<lambda>skill. any_in tech_keywords (lower skill)) skills;
          has_soft = list_ex (\<lambda>skill. any_in soft_keywords (lower skill)) skills;
          diversity_score = (of_bool_real has_tech + of_bool_real has_soft) / 2 * 30;
          score = score + diversity_score;
          score = (if proficiency \<noteq> []
                   then (let avg_proficiency = sum_list (map snd proficiency)
                                                 / real (length proficiency);
                             proficiency_score = (avg_proficiency / 100) * 40
                         in score + proficiency_score)
                   else score + 20)
      in \<lparr>percentage = min score 100,
          details = [Num (real skill_count), Txt '' skills with varying proficiency'']\<rparr>)"

definition project_quality :: "project \<Rightarrow> real" where
  \<comment> \<open>the body of the loop over projects: one entry of \<open>quality_scores\<close>\<close>
  "project_quality p =
     (let proj_score = 0;
          proj_score = (if truthy (p_description p) then proj_score + 20 else proj_score);
          proj_score = (if truthy (p_github_url p) then proj_score + 20 else proj_score);
          proj_score = (if truthy (p_demo_url p) then proj_score + 20 else proj_score);
          stars = get_or (p_stars p) 0;
          proj_score = (if stars > 0 then proj_score + min (stars * 5) 20 else proj_score);
          proj_score = (if py_in ''complex'' (lower (get_or (p_description p) []))
                        then proj_score + 20 else proj_score)
      in min proj_score 100)"

definition score_projects :: "project list \<Rightarrow> score_data" where
  "score_projects projects =
     (if projects = [] then \<lparr>percentage = 0, details = [Txt ''No projects found'']\<rparr>
      else
        (let score = 0;
             count_score = min (real (length projects) / 8) 1 * 25;
             score = score + count_score;
             quality_scores = map project_quality projects;
             avg_quality = sum_list quality_scores / real (length quality_scores);
             score = score + (avg_quality / 100) * 50;
             languages = remdups (map (\<lambda>p. get_or (p_language p) ''Unknown'') projects);
             diversity_score = min (real (length languages) / 4) 1 * 25;
             score = score + diversity_score
         in \<lparr>percentage = min score 100,
             details = [Num (real (length projects)), Txt '' projects across '',
                        Num (real (length languages)), Txt '' technologies'']\<rparr>))"

definition trusted_providers :: "string list" where
  "trusted_providers = [''google'', ''microsoft'', ''aws'', ''ibm'', ''coursera'', ''edx'']"

definition cert_recent :: "int \<Rightarrow> certification \<Rightarrow> bool" where
  \<comment> \<open>the body of the recency loop: does this certificate add one to \<open>recent_count\<close>?
      A date whose first four characters are not an integer is skipped (\<open>except: pass\<close>).\<close>
  "cert_recent current_year cert =
     (truthy (c_date cert) \<and>
      (case py_int (take 4 (get_or (c_date cert) [])) of
         None \<Rightarrow> False
       | Some year \<Rightarrow> current_year - year \<le> 2))"

definition score_certifications :: "int \<Rightarrow> certification list \<Rightarrow> score_data" where
  \<comment> \<open>\<open>current_year\<close> is \<open>datetime.now().year\<close>, read from the clock inside the function\<close>
  "score_certifications current_year certifications =
     (if certifications = [] then \<lparr>percentage = 0, details = [Txt ''No certifications'']\<rparr>
      else
        (let score = 0;
             count_score = min (real (length certifications) / 8) 1 * 30;
             score = score + count_score;
             trusted_count = length (filter (\<lambda>cert.
                 any_in trusted_providers (lower (get_or (c_provider cert) []))) certifications);
             quality_score = min (real trusted_count / real (max (length certifications) 1)) 1 * 50;
             score = score + quality_score;
             recent_count = length (filter (cert_recent current_year) certifications);
             recency_score = min (real recent_count / real (max (length certifications) 1)) 1 * 20;
             score = score + recency_score
         in \<lparr>percentage = min score 100,
             details = [Num (real (length certifications)), Txt '' certifications, '',
                        Num (real trusted_count), Txt '' from top providers'']\<rparr>))"

definition leadership_keywords :: "string list" where
  "leadership_keywords = [''president'', ''lead'', ''founder'', ''organizer'', ''captain'']"

definition score_extracurricular :: "activity list \<Rightarrow> score_data" where
  "score_extracurricular activities =
     (if activities = [] then
        \<lparr>percentage = 0, details = [Txt ''No extracurricular activities'']\<rparr>
      else
        (let score = 0;
             count_score = min (real (length activities) / 6) 1 * 30;
             score = score + count_score;
             leadership_count = length (filter (\<lambda>activity.
                 any_in leadership_keywords (lower (get_or (a_role activity) []))) activities);
             leadership_score =
               min (real leadership_count / real (max (length activities) 1)) 1 * 40;
             score = score + leadership_score;
             impact_count = length (filter (\<lambda>activity.
                 truthy (a_achievements activity) \<or> truthy (a_impact activity)) activities);
             impact_score = min (real impact_count / real (max (length activities) 1)) 1 * 30;
             score = score + impact_score
         in \<lparr>percentage = min score 100,
             details = [Num (real (length activities)), Txt '' activities, '',
                        Num (real leadership_count), Txt '' leadership roles'']\<rparr>))"

definition score_github :: "real dict \<Rightarrow> score_data" where
  "score_github github_stats =
     (if github_stats = [] then \<lparr>percentage = 0, details = [Txt ''No GitHub activity'']\<rparr>
      else
        (let score = 0;
             repos = get github_stats ''public_repos'' 0;
             repo_score = min (repos / 15) 1 * 25;
             score = score + repo_score;
             contributions = get github_stats ''total_contributions'' 0;
             contrib_score = min (contributions / 500) 1 * 35;
             score = score + contrib_score;
             stars = get github_stats ''total_stars'' 0;
             star_score = min (stars / 50) 1 * 20;
             score = score + star_score;
             streak = get github_stats ''longest_streak'' 0;
             consistency_score = min (streak / 30) 1 * 20;
             score = score + consistency_score
         in \<lparr>percentage = min score 100,
             details = [Num repos, Txt '' repos, '', Num contributions,
                        Txt '' contributions, '', Num stars, Txt '' stars'']\<rparr>))"

definition score_learning :: "real dict \<Rightarrow> score_data" where
  "score_learning learning_progress =
     (if learning_progress = [] then \<lparr>percentage = 50, details = [Txt ''No learning data'']\<rparr>
      else
        (let score = 0;
             completed = get learning_progress ''completed_courses'' 0;
             completion_score = min (completed / 10) 1 * 40;
             score = score + completion_score;
             in_progress = get learning_progress ''in_progress_courses'' 0;
             progress_score = min (in_progress / 5) 1 * 30;
             score = score + progress_score;
             hours = get learning_progress ''total_hours'' 0;
             hours_score = min (hours / 100) 1 * 30;
             score = score + hours_score
         in \<lparr>percentage = min score 100,
             details = [Num completed, Txt '' completed, '', Num in_progress,
                        Txt '' in progress'']\<rparr>))"

definition score_interview_prep :: "real dict \<Rightarrow> score_data" where
  "score_interview_prep interview_scores =
     (if interview_scores = [] then
        \<lparr>percentage = 40, details = [Txt ''No interview practice data'']\<rparr>
      else
        (let score = 0;
             practice_count = get interview_scores ''questions_practiced'' 0;
             practice_score = min (practice_count / 50) 1 * 30;
             score = score + practice_score;
             avg_score = get interview_scores ''average_score'' 0;
             performance_score = (avg_score / 100) * 50;
             score = score + performance_score;
             improvement = get interview_scores ''improvement_rate'' 0;
             trend_score = min (improvement / 20) 1 * 20;
             score = score + trend_score
         in \<lparr>percentage = min score 100,
             details = [Num practice_count, Txt '' questions practiced, '', Num avg_score,
                        Txt ''% avg score'']\<rparr>))"

subsection \<open>Weights, rating ranges and percentile\<close>

datatype component =
  Resume_quality | Skills_portfolio | Project_portfolio | Certifications
  | Extracurricular | Github_activity | Learning_progress | Interview_readiness

fun weight :: "component \<Rightarrow> real" where
  "weight Resume_quality = 0.15"
| "weight Skills_portfolio = 0.20"
| "weight Project_portfolio = 0.18"
| "weight Certifications = 0.12"
| "weight Extracurricular = 0.10"
| "weight Github_activity = 0.10"
| "weight Learning_progress = 0.08"
| "weight Interview_readiness = 0.07"

fun max_points_of :: "component \<Rightarrow> real" where
  \<comment> \<open>\<open>SCORE_COMPONENTS[component]['max_points']\<close>\<close>
  "max_points_of Resume_quality = 127.5"
| "max_points_of Skills_portfolio = 170"
| "max_points_of Project_portfolio = 153"
| "max_points_of Certifications = 102"
| "max_points_of Extracurricular = 85"
| "max_points_of Github_activity = 85"
| "max_points_of Learning_progress = 68"
| "max_points_of Interview_readiness = 59.5"

text \<open>
  An entry of \<open>SCORE_RANGES\<close>: the key \<open>(min_score, max_score)\<close> and the texts stored
  under it (the emoji glyph is left out). The list keeps the order of the dictionary.
\<close>

record score_info =
  range_min :: real
  range_max :: real
  r_rating :: string
  r_color :: string
  r_description :: string
  r_opportunities :: string

definition range_exceptional :: score_info where
  "range_exceptional = \<lparr>range_min = 750, range_max = 850, r_rating = ''Exceptional'',
     r_color = ''#00C853'',
     r_description = ''Outstanding career readiness - Top tier candidate'',
     r_opportunities = ''Eligible for top companies, leadership roles, premium internships''\<rparr>"

definition range_excellent :: score_info where
  "range_excellent = \<lparr>range_min = 650, range_max = 749, r_rating = ''Excellent'',
     r_color = ''#64DD17'',
     r_description = ''Strong career profile - Highly competitive'',
     r_opportunities = ''Competitive for most positions, good internship prospects''\<rparr>"

definition range_good :: score_info where
  "range_good = \<lparr>range_min = 550, range_max = 649, r_rating = ''Good'',
     r_color = ''#FFD600'',
     r_description = ''Solid foundation - Ready for entry-level roles'',
     r_opportunities = ''Suitable for entry-level positions and internships''\<rparr>"

definition range_fair :: score_info where
  "range_fair = \<lparr>range_min = 450, range_max = 549, r_rating = ''Fair'',
     r_color = ''#FF6F00'',
     r_description = ''Developing profile - Needs improvement'',
     r_opportunities = ''May qualify for some internships, needs skill building''\<rparr>"

definition range_building :: score_info where
  "range_building = \<lparr>range_min = 0, range_max = 449, r_rating = ''Building'',
     r_color = ''#FF5252'',
     r_description = ''Early stage - Focus on fundamentals'',
     r_opportunities = ''Focus on learning, projects, and skill development''\<rparr>"

definition SCORE_RANGES :: "score_info list" where
  "SCORE_RANGES = [range_exceptional, range_excellent, range_good, range_fair, range_building]"

definition in_range :: "real \<Rightarrow> score_info \<Rightarrow> bool" where
  \<comment> \<open>the loop test \<open>min_score <= score <= max_score\<close>\<close>
  "in_range score info = (range_min info \<le> score \<and> score \<le> range_max info)"

definition get_score_info :: "real \<Rightarrow> score_info" where
  \<comment> \<open>first matching range; after the loop the fallback \<open>SCORE_RANGES[(0, 449)]\<close>\<close>
  "get_score_info score =
     (case find (in_range score) SCORE_RANGES of
        Some info \<Rightarrow> info
      | None \<Rightarrow> range_building)"

definition calculate_percentile :: "real \<Rightarrow> int" where
  "calculate_percentile score =
     (if score \<ge> 750 then 95 + py_trunc ((score - 750) / 10)
      else if score \<ge> 650 then 75 + py_trunc ((score - 650) / 5)
      else if score \<ge> 550 then 50 + py_trunc ((score - 550) / 4)
      else if score \<ge> 450 then 25 + py_trunc ((score - 450) / 4)
      else py_trunc (score / 18))"

subsection \<open>The composite score\<close>

record component_score = score_data +
  weighted_score :: real
  max_points :: real

definition add_weighted :: "component \<times> score_data \<Rightarrow> component \<times> component_score" where
  \<comment> \<open>the body of the loop over \<open>component_scores.items()\<close>\<close>
  "add_weighted cs =
     (case cs of (component, score_data) \<Rightarrow>
        (let max_points = max_points_of component;
             weighted_score = (percentage score_data / 100) * max_points
         in (component, score_data.extend score_data
               \<lparr>weighted_score = weighted_score, max_points = max_points\<rparr>)))"

text \<open>
  The result keeps the fields computed from the scores and the total. The lists of
  strengths, weaknesses and recommendations, the sorted breakdown and the improvement
  potential are further texts and numbers computed from \<open>component_scores\<close> and
  \<open>total_score\<close> alone; they are not part of the record.
\<close>

record holistic_result =
  total_score :: real
  max_score :: real
  rating :: string
  color :: string
  description :: string
  opportunities :: string
  percentile :: int
  component_scores :: "(component \<times> component_score) list"

definition component_percentages :: "int \<Rightarrow> profile_data \<Rightarrow> (component \<times> score_data) list" where
  \<comment> \<open>the eight assignments to \<open>component_scores[...]\<close>, in order\<close>
  "component_percentages current_year profile =
     [(Resume_quality, score_resume (get_or (pd_resume_analysis profile) [])),
      (Skills_portfolio, score_skills (get_or (pd_skills profile) [])
                                      (get_or (pd_skill_proficiency profile) [])),
      (Project_portfolio, score_projects (get_or (pd_projects profile) [])),
      (Certifications, score_certifications current_year
                                      (get_or (pd_certifications profile) [])),
      (Extracurricular, score_extracurricular (get_or (pd_extracurricular profile) [])),
      (Github_activity, score_github (get_or (pd_github_stats profile) [])),
      (Learning_progress, score_learning (get_or (pd_learning_progress profile) [])),
      (Interview_readiness, score_interview_prep (get_or (pd_interview_scores profile) []))]"

definition weighted_total :: "int \<Rightarrow> profile_data \<Rightarrow> real" where
  \<comment> \<open>\<open>total_score\<close> after the loop, before rounding\<close>
  "weighted_total current_year profile =
     foldl (\<lambda>total cs. total + weighted_score (snd (add_weighted cs))) 0
       (component_percentages current_year profile)"

definition calculate_comprehensive_score :: "int \<Rightarrow> profile_data \<Rightarrow> holistic_result" where
  "calculate_comprehensive_score current_year profile =
     (let component_scores = map add_weighted (component_percentages current_year profile);
          total_score = weighted_total current_year profile;
          info = get_score_info total_score;
          percentile = calculate_percentile total_score
      in \<lparr>total_score = round1 total_score,
          max_score = 850,
          rating = r_rating info,
          color = r_color info,
          description = r_description info,
          opportunities = r_opportunities info,
          percentile = percentile,
          component_scores = component_scores\<rparr>)"

section \<open>Internship matcher (\<open>internship_matcher.py\<close>)\<close>

text \<open>
  Texts outside ASCII are written as their UTF-8 bytes.
\<close>

definition rupee :: string where
  "rupee = [CHR 0xE2, CHR 0x82, CHR 0xB9]"

record category_info =
  ci_required_skills :: "string list"
  ci_preferred_skills :: "string list"
  ci_keywords :: "string list"
  ci_avg_stipend_range :: string
  ci_duration :: string

definition INTERNSHIP_CATEGORIES :: "category_info dict" where
  "INTERNSHIP_CATEGORIES =
   [(''Software Development'',
     \<lparr>ci_required_skills = [''Programming'', ''Problem Solving'', ''Data Structures''],
      ci_preferred_skills = [''Python'', ''Java'', ''C++'', ''JavaScript'', ''Git''],
      ci_keywords = [''software'', ''developer'', ''programming'', ''coding'', ''backend'',
                  ''frontend''],
      ci_avg_stipend_range = rupee @ ''10,000-30,000/month'', ci_duration = ''2-6 months''\<rparr>),
    (''Data Science/Analytics'',
     \<lparr>ci_required_skills = [''Python'', ''Statistics'', ''Data Analysis''],
      ci_preferred_skills = [''Machine Learning'', ''SQL'', ''Pandas'', ''NumPy'', ''Visualization''],
      ci_keywords = [''data'', ''analytics'', ''machine learning'', ''ai'', ''ml'', ''statistics''],
      ci_avg_stipend_range = rupee @ ''15,000-35,000/month'', ci_duration = ''3-6 months''\<rparr>),
    (''Web Development'',
     \<lparr>ci_required_skills = [''HTML'', ''CSS'', ''JavaScript''],
      ci_preferred_skills = [''React'', ''Node.js'', ''MongoDB'', ''Express'', ''REST API''],
      ci_keywords = [''web'', ''frontend'', ''backend'', ''fullstack'', ''react'', ''angular''],
      ci_avg_stipend_range = rupee @ ''8,000-25,000/month'', ci_duration = ''2-4 months''\<rparr>),
    (''Mobile App Development'',
     \<lparr>ci_required_skills = [''Programming'', ''Mobile Development''],
      ci_preferred_skills = [''Android'', ''iOS'', ''Flutter'', ''React Native'', ''Swift'',
                          ''Kotlin''],
      ci_keywords = [''mobile'', ''android'', ''ios'', ''app development'', ''flutter''],
      ci_avg_stipend_range = rupee @ ''12,000-28,000/month'', ci_duration = ''3-5 months''\<rparr>),
    (''UI/UX Design'',
     \<lparr>ci_required_skills = [''Design'', ''User Research'', ''Prototyping''],
      ci_preferred_skills = [''Figma'', ''Adobe XD'', ''Sketch'', ''User Testing'', ''Wireframing''],
      ci_keywords = [''ui'', ''ux'', ''design'', ''user experience'', ''interface'', ''figma''],
      ci_avg_stipend_range = rupee @ ''8,000-20,000/month'', ci_duration = ''2-4 months''\<rparr>),
    (''Digital Marketing'',
     \<lparr>ci_required_skills = [''Marketing'', ''Communication'', ''Analytics''],
      ci_preferred_skills = [''SEO'', ''Social Media'', ''Content Marketing'', ''Google Analytics''],
      ci_keywords = [''marketing'', ''digital'', ''seo'', ''social media'', ''content'',
                  ''campaigns''],
      ci_avg_stipend_range = rupee @ ''5,000-18,000/month'', ci_duration = ''2-4 months''\<rparr>),
    (''Content Writing'',
     \<lparr>ci_required_skills = [''Writing'', ''Communication'', ''Research''],
      ci_preferred_skills = [''SEO Writing'', ''Technical Writing'', ''Copywriting'', ''Editing''],
      ci_keywords = [''content'', ''writing'', ''copywriting'', ''blog'', ''technical writing''],
      ci_avg_stipend_range = rupee @ ''5,000-15,000/month'', ci_duration = ''2-3 months''\<rparr>),
    (''Business Development'',
     \<lparr>ci_required_skills = [''Communication'', ''Sales'', ''Negotiation''],
      ci_preferred_skills = [''CRM'', ''Market Research'', ''Presentation'', ''Client Management''],
      ci_keywords = [''business development'', ''sales'', ''bd'', ''partnerships'', ''client''],
      ci_avg_stipend_range = rupee @ ''8,000-22,000/month'', ci_duration = ''3-6 months''\<rparr>),
    (''Graphic Design'',
     \<lparr>ci_required_skills = [''Design'', ''Creativity'', ''Visual Communication''],
      ci_preferred_skills = [''Photoshop'', ''Illustrator'', ''InDesign'', ''Canva'', ''Branding''],
      ci_keywords = [''graphic'', ''design'', ''visual'', ''creative'', ''photoshop'',
                  ''illustrator''],
      ci_avg_stipend_range = rupee @ ''6,000-18,000/month'', ci_duration = ''2-4 months''\<rparr>),
    (''Cybersecurity'',
     \<lparr>ci_required_skills = [''Security'', ''Networking'', ''Problem Solving''],
      ci_preferred_skills = [''Penetration Testing'', ''Security Analysis'', ''Firewall'',
                          ''Encryption''],
      ci_keywords = [''security'', ''cybersecurity'', ''ethical hacking'', ''penetration'',
                  ''network security''],
      ci_avg_stipend_range = rupee @ ''12,000-30,000/month'', ci_duration = ''3-6 months''\<rparr>),
    (''Cloud Computing'',
     \<lparr>ci_required_skills = [''Cloud Platforms'', ''Networking'', ''Linux''],
      ci_preferred_skills = [''AWS'', ''Azure'', ''GCP'', ''Docker'', ''Kubernetes'', ''DevOps''],
      ci_keywords = [''cloud'', ''aws'', ''azure'', ''gcp'', ''devops'', ''kubernetes''],
      ci_avg_stipend_range = rupee @ ''15,000-35,000/month'', ci_duration = ''3-6 months''\<rparr>),
    (''Research'',
     \<lparr>ci_required_skills = [''Research'', ''Analysis'', ''Critical Thinking''],
      ci_preferred_skills = [''Academic Writing'', ''Data Collection'', ''Literature Review'',
                          ''Statistics''],
      ci_keywords = [''research'', ''academic'', ''study'', ''analysis'', ''investigation''],
      ci_avg_stipend_range = rupee @ ''8,000-20,000/month'', ci_duration = ''3-6 months''\<rparr>)]"

subsection \<open>The parts of the match score\<close>

definition lower_set :: "string list \<Rightarrow> string set" where
  \<comment> \<open>\<open>set(skill.lower() for skill in xs)\<close>\<close>
  "lower_set xs = set (map lower xs)"

definition required_match :: "string list \<Rightarrow> category_info \<Rightarrow> real" where
  "required_match cand_skills category_info =
     (let candidate_skills = lower_set cand_skills;
          required = lower_set (ci_required_skills category_info)
      in real (card (candidate_skills \<inter> required)) / real (max (card required) 1))"

definition preferred_match :: "string list \<Rightarrow> category_info \<Rightarrow> real" where
  "preferred_match cand_skills category_info =
     (let candidate_skills = lower_set cand_skills;
          preferred = lower_set (ci_preferred_skills category_info)
      in real (card (candidate_skills \<inter> preferred)) / real (max (card preferred) 1))"

definition skill_score :: "string list \<Rightarrow> category_info \<Rightarrow> real" where
  \<comment> \<open>base score from skills (60% weight)\<close>
  "skill_score cand_skills category_info =
     (required_match cand_skills category_info * 0.7
        + preferred_match cand_skills category_info * 0.3) * 60"

definition relevant_projects :: "project list \<Rightarrow> category_info \<Rightarrow> nat" where
  "relevant_projects projects category_info =
     length (filter (\<lambda>project.
        (let project_text = lower (get_or (p_name project) [] @ '' ''
                                     @ get_or (p_description project) [])
         in any_in (ci_keywords category_info) project_text)) projects)"

definition relevant_certs :: "certification list \<Rightarrow> category_info \<Rightarrow> nat" where
  "relevant_certs certifications category_info =
     length (filter (\<lambda>cert.
        (let cert_text = lower (get_or (c_name cert) [] @ '' ''
                                  @ get_or (c_provider cert) [])
         in any_in (ci_keywords category_info) cert_text)) certifications)"

definition calculate_experience_score :: "profile_data \<Rightarrow> real" where
  "calculate_experience_score profile =
     (let score = 0;
          projects = length (get_or (pd_projects profile) []);
          score = score + min (real projects * 2) 4;
          certs = length (get_or (pd_certifications profile) []);
          score = score + min (real certs * 1.5) 3;
          activities = length (get_or (pd_extracurricular profile) []);
          score = score + min (real activities * 0.5) 3
      in min score 10)"

definition project_score :: "project list \<Rightarrow> category_info \<Rightarrow> real" where
  \<comment> \<open>project relevance (20% weight)\<close>
  "project_score projects category_info =
     min (real (relevant_projects projects category_info) * 10) 20"

definition cert_score :: "certification list \<Rightarrow> category_info \<Rightarrow> real" where
  \<comment> \<open>certifications (10% weight)\<close>
  "cert_score certifications category_info =
     min (real (relevant_certs certifications category_info) * 5) 10"

definition match_total :: "profile_data \<Rightarrow> category_info \<Rightarrow> real" where
  \<comment> \<open>\<open>total_score\<close> of \<open>calculate_match_score\<close>\<close>
  "match_total candidate_profile category_info =
     skill_score (get_or (pd_skills candidate_profile) []) category_info
     + project_score (get_or (pd_projects candidate_profile) []) category_info
     + cert_score (get_or (pd_certifications candidate_profile) []) category_info
     + calculate_experience_score candidate_profile"

definition determine_readiness :: "real \<Rightarrow> string" where
  "determine_readiness score =
     (if score \<ge> 75 then ''Highly Ready - Strong Match''
      else if score \<ge> 60 then ''Ready - Good Match''
      else if score \<ge> 40 then ''Developing - Needs Preparation''
      else ''Early Stage - Significant Preparation Needed'')"

subsection \<open>Recommendations\<close>

definition emoji_target :: string where "emoji_target = [CHR 0xF0, CHR 0x9F, CHR 0x8E, CHR 0xAF]"
definition emoji_books :: string where "emoji_books = [CHR 0xF0, CHR 0x9F, CHR 0x93, CHR 0x9A]"
definition emoji_star :: string where "emoji_star = [CHR 0xE2, CHR 0xAD, CHR 0x90]"
definition emoji_bulb :: string where "emoji_bulb = [CHR 0xF0, CHR 0x9F, CHR 0x92, CHR 0xA1]"
definition emoji_rocket :: string where "emoji_rocket = [CHR 0xF0, CHR 0x9F, CHR 0x9A, CHR 0x80]"
definition emoji_check :: string where "emoji_check = [CHR 0xE2, CHR 0x9C, CHR 0x85]"
definition emoji_chart :: string where "emoji_chart = [CHR 0xF0, CHR 0x9F, CHR 0x93, CHR 0x88]"

fun join :: "string \<Rightarrow> string list \<Rightarrow> string" where
  \<comment> \<open>\<open>sep.join(xs)\<close>\<close>
  "join sep [] = []"
| "join sep [x] = x"
| "join sep (x # y # ys) = x @ sep @ join sep (y # ys)"

text \<open>
  Python does not fix the order in which a \<open>set\<close> is listed. The two sets of missing
  skills are kept as lists without repetitions, in the order of the catalog entry.
\<close>

definition missing_of :: "string list \<Rightarrow> string list \<Rightarrow> string list" where
  \<comment> \<open>\<open>list(wanted - candidate_skills)\<close>, both sets lower-cased\<close>
  "missing_of wanted cand_skills =
     filter (\<lambda>s. s \<notin> lower_set cand_skills) (remdups (map lower wanted))"

definition generate_match_recommendations ::
    "real \<Rightarrow> string list \<Rightarrow> string list \<Rightarrow> nat \<Rightarrow> string list" where
  "generate_match_recommendations score missing_required missing_preferred n_relevant =
     (if score < 60
      then [emoji_target @ '' Focus on building foundational skills before applying'']
      else [])
     @ (if missing_required \<noteq> []
        then [emoji_books @ '' Priority: Learn these required skills - ''
                @ join '', '' (take 3 missing_required)]
        else [])
     @ (if missing_preferred \<noteq> [] \<and> score < 80
        then [emoji_star @ '' Recommended: Add these skills to stand out - ''
                @ join '', '' (take 3 missing_preferred)]
        else [])
     @ (if n_relevant = 0
        then [emoji_bulb
                @ '' Build 1-2 projects in this domain to demonstrate practical skills'']
        else if n_relevant < 2
        then [emoji_rocket
                @ '' Add more domain-specific projects to strengthen your profile'']
        else [])
     @ (if score \<ge> 75
        then [emoji_check
                @ '' You're ready to apply! Prepare a strong resume highlighting relevant skills'']
        else if score \<ge> 60
        then [emoji_chart
                @ '' You're on track! A few more skills/projects will make you highly competitive'']
        else [])"

subsection \<open>\<open>calculate_match_score\<close> and \<open>find_best_matches\<close>\<close>

datatype pyval =
  Number real | Text string | Text_list "string list" | Category category_info

definition match_analysis :: "profile_data \<Rightarrow> category_info \<Rightarrow> pyval dict" where
  \<comment> \<open>the dictionary built for a category of the catalog\<close>
  "match_analysis candidate_profile category_info =
     (let cand_skills = get_or (pd_skills candidate_profile) [];
          candidate_skills = lower_set cand_skills;
          required = lower_set (ci_required_skills category_info);
          preferred = lower_set (ci_preferred_skills category_info);
          total_score = match_total candidate_profile category_info;
          n_projects =
            relevant_projects (get_or (pd_projects candidate_profile) []) category_info;
          n_certs =
            relevant_certs (get_or (pd_certifications candidate_profile) []) category_info;
          missing_required = missing_of (ci_required_skills category_info) cand_skills;
          missing_preferred = missing_of (ci_preferred_skills category_info) cand_skills
      in [(''match_score'', Number (min total_score 100)),
          (''skill_match_percentage'', Number (required_match cand_skills category_info * 100)),
          (''required_skills_met'', Number (real (card (candidate_skills \<inter> required)))),
          (''required_skills_total'', Number (real (card required))),
          (''preferred_skills_met'', Number (real (card (candidate_skills \<inter> preferred)))),
          (''relevant_projects'', Number (real n_projects)),
          (''relevant_certifications'', Number (real n_certs)),
          (''missing_required_skills'', Text_list missing_required),
          (''missing_preferred_skills'', Text_list missing_preferred),
          (''readiness_level'', Text (determine_readiness total_score)),
          (''recommendations'', Text_list (generate_match_recommendations
               total_score missing_required missing_preferred n_projects)),
          (''category_info'', Category category_info)])"

definition calculate_match_score :: "profile_data \<Rightarrow> string \<Rightarrow> pyval dict" where
  \<comment> \<open>every entry of the catalog is a non-empty dictionary, so \<open>not category_info\<close>
      holds exactly when the name is not a key\<close>
  "calculate_match_score candidate_profile internship_category =
     (case map_of INTERNSHIP_CATEGORIES internship_category of
        None \<Rightarrow> [(''match_score'', Number 0), (''error'', Text ''Invalid category'')]
      | Some category_info \<Rightarrow> match_analysis candidate_profile category_info)"

record match_entry =
  category :: string
  match_score :: real
  readiness :: string
  analysis :: "pyval dict"

definition make_entry :: "profile_data \<Rightarrow> string \<Rightarrow> match_entry option" where
  \<comment> \<open>the body of the loop over the catalog; \<open>None\<close> stands for the \<open>KeyError\<close> of a
      subscript whose key is absent\<close>
  "make_entry candidate_profile cat =
     (let ma = calculate_match_score candidate_profile cat
      in case (map_of ma ''match_score'', map_of ma ''readiness_level'') of
           (Some (Number s), Some (Text r)) \<Rightarrow>
             Some \<lparr>category = cat, match_score = s, readiness = r, analysis = ma\<rparr>
         | _ \<Rightarrow> None)"

fun all_entries :: "profile_data \<Rightarrow> string list \<Rightarrow> match_entry list option" where
  "all_entries candidate_profile [] = Some []"
| "all_entries candidate_profile (cat # cats) =
     (case make_entry candidate_profile cat of
        None \<Rightarrow> None
      | Some e \<Rightarrow> map_option ((#) e) (all_entries candidate_profile cats))"

definition sort_desc :: "match_entry list \<Rightarrow> match_entry list" where
  \<comment> \<open>\<open>matches.sort(key=..., reverse=True)\<close>: a stable sort, largest score first\<close>
  "sort_desc matches = sort_key (\<lambda>x. - match_score x) matches"

definition slice_to :: "'a list \<Rightarrow> int \<Rightarrow> 'a list" where
  \<comment> \<open>\<open>xs[:n]\<close>; a negative \<open>n\<close> counts from the end\<close>
  "slice_to xs n = (if 0 \<le> n then take (nat n) xs else take (length xs - nat (- n)) xs)"

definition find_best_matches :: "profile_data \<Rightarrow> int \<Rightarrow> match_entry list option" where
  "find_best_matches candidate_profile top_n =
     (case all_entries candidate_profile (map fst INTERNSHIP_CATEGORIES) of
        None \<Rightarrow> None
      | Some matches \<Rightarrow> Some (slice_to (sort_desc matches) top_n))"

section \<open>Text generators with a local fallback (\<open>openrouter_llm.py\<close>)\<close>

text \<open>
  The provider is outside the program. A generator takes what the two calls to it gave:
  \<open>available\<close> is the value of \<open>is_openrouter_available()\<close> and \<open>result\<close> the string
  returned by \<open>call_openrouter_llm\<close> for the prompt.
\<close>

definition nl :: string where "nl = [CHR 0x0A]"
definition bullet :: string where "bullet = [CHR 0xE2, CHR 0x80, CHR 0xA2]"

definition is_letter :: "char \<Rightarrow> bool" where
  "is_letter c = (c \<in> set ''ABCDEFGHIJKLMNOPQRSTUVWXYZabcdefghijklmnopqrstuvwxyz'')"

definition is_word_char :: "char \<Rightarrow> bool" where
  \<comment> \<open>the class \<open>\w\<close> on ASCII text\<close>
  "is_word_char c = (is_letter c \<or> c \<in> set ''0123456789_'')"

fun word_runs :: "string \<Rightarrow> string \<Rightarrow> string list" where
  \<comment> \<open>the maximal runs of word characters, \<open>cur\<close> being the run read so far\<close>
  "word_runs cur [] = (if cur = [] then [] else [cur])"
| "word_runs cur (c # cs) =
     (if is_word_char c then word_runs (cur @ [c]) cs
      else (if cur = [] then [] else [cur]) @ word_runs [] cs)"

definition findall_words :: "string \<Rightarrow> string list" where
  \<comment> \<open>\<open>re.findall(r'\b[A-Za-z]{3,}\b', text)\<close>: a match is a whole run of word characters
      that has at least three characters, all of them letters\<close>
  "findall_words text =
     filter (\<lambda>w. 3 \<le> length w \<and> list_all is_letter w) (word_runs [] text)"

definition common_buzzwords :: "string list" where
  "common_buzzwords =
     [''experience'', ''skills'', ''required'', ''preferred'', ''years'', ''team'', ''work'']"

definition dedup :: "string list \<Rightarrow> string list" where
  \<comment> \<open>\<open>list(dict.fromkeys(xs))\<close>: the first occurrence of each element, in order\<close>
  "dedup xs = rev (remdups (rev xs))"

definition jd_keywords :: "string \<Rightarrow> string list" where
  \<comment> \<open>the set \<open>jd_keywords\<close>, listed in order of first occurrence (Python does not fix
      the order in which a \<open>set\<close> is listed)\<close>
  "jd_keywords jd_text =
     (if jd_text = [] then []
      else dedup (take 10 (filter (\<lambda>w. w \<notin> set common_buzzwords)
                                  (findall_words (lower jd_text)))))"

definition improvements_start :: "string list" where
  \<comment> \<open>the list \<open>improvements\<close> as first assigned\<close>
  "improvements_start =
     [''### '' @ emoji_rocket @ '' AI-Powered Resume Enhancement Recommendations'',
      nl @ ''**Immediate Action Items:**'',
      nl @ bullet @ '' **Professional Summary**: Add a compelling 2-3 line summary highlighting your value proposition'',
      bullet @ '' **Keywords Optimization**: Integrate job-specific terms naturally throughout your resume'',
      bullet @ '' **Quantify Achievements**: Add metrics (percentages, dollar amounts, time saved) to your accomplishments'',
      bullet @ '' **Skills Section**: Create a dedicated technical skills section with relevant technologies'',
      bullet @ '' **Action Verbs**: Start each bullet point with strong action verbs (Led, Developed, Optimized, Implemented)'']"

definition keyword_lines :: "string list \<Rightarrow> string list" where
  \<comment> \<open>what the block \<open>if jd_keywords:\<close> appends\<close>
  "keyword_lines keywords =
     (if keywords \<noteq> [] then
        [nl @ ''**Job-Specific Keywords to Include:**'',
         nl @ bullet @ '' Integrate these terms: '' @ join '', '' (take 6 keywords),
         bullet @ '' Use them naturally in your experience descriptions and skills section'']
      else [])"

definition missing_lines :: "string list \<Rightarrow> string list" where
  \<comment> \<open>what the block \<open>if top_missing:\<close> appends\<close>
  "missing_lines top_missing =
     (if top_missing \<noteq> [] then
        [nl @ ''**Address Missing Skills:**'',
         bullet @ '' **Highlight Transferable Experience**: Show how your current experience relates to required skills'']
        @ map (\<lambda>skill. ''  - For '' @ skill
                 @ '': Describe any related projects, coursework, or self-study'')
              (take 5 top_missing)
      else [])"

definition improvements_end :: "string list" where
  \<comment> \<open>what the last \<open>improvements.extend\<close> appends\<close>
  "improvements_end =
     [nl @ ''**Professional Formatting:**'',
      bullet @ '' **Consistent Structure**: Use the same format for each role (Title, Company, Dates, Bullets)'',
      bullet @ '' **Bullet Point Optimization**: Limit to 3-5 bullets per role, prioritize most relevant accomplishments'',
      bullet @ '' **Length Management**: Keep to 1-2 pages, focus on most recent and relevant experience'',
      nl @ ''**ATS Optimization:**'',
      bullet @ '' **Standard Sections**: Use clear headings (Experience, Education, Skills, Projects)'',
      bullet @ '' **Keyword Density**: Ensure important terms appear 2-3 times throughout the document'',
      bullet @ '' **Simple Formatting**: Avoid complex layouts, stick to standard fonts and bullet points'',
      nl @ emoji_check @ '' **Next Steps**: Review each section against these recommendations and update 2-3 bullets to better showcase your fit for this specific role.'']"

definition generate_resume_improvements_fallback ::
    "string \<Rightarrow> string \<Rightarrow> string list \<Rightarrow> string" where
  "generate_resume_improvements_fallback resume_text jd_text missing_skills =
     (let top_missing = take 8 (dedup (map strip missing_skills));
          keywords = jd_keywords jd_text;
          improvements = improvements_start;
          improvements = improvements @ keyword_lines keywords;
          improvements = improvements @ missing_lines top_missing;
          improvements = improvements @ improvements_end
      in join nl improvements)"

definition enhance_resume_section ::
    "bool \<Rightarrow> string \<Rightarrow> string \<Rightarrow> string \<Rightarrow> string list \<Rightarrow> string" where
  "enhance_resume_section available result resume_text jd_text missing_skills =
     (if \<not> available
      then generate_resume_improvements_fallback resume_text jd_text missing_skills
      else if startswith result ''Error:''
      then generate_resume_improvements_fallback resume_text jd_text missing_skills
      else result)"

definition project_ideas_fallback :: string where
  "project_ideas_fallback =
     ''### Project Ideas (Fast Fallback)'' @ nl
     @ ''1. Metrics Dashboard: Build a small app that ingests CSV/JSON and renders KPI charts.'' @ nl
     @ ''2. Data ETL Mini-Pipeline: Extract from an API, clean with pandas, load to SQLite, expose a simple API.'' @ nl
     @ ''3. Resume Keyword Highlighter: Highlight JD-aligned keywords in a resume with a web UI.'' @ nl"

definition generate_project_ideas :: "bool \<Rightarrow> string \<Rightarrow> string \<Rightarrow> string list \<Rightarrow> string" where
  "generate_project_ideas available result resume_text skills =
     (if \<not> available then project_ideas_fallback
      else if startswith result ''Error:'' then project_ideas_fallback
      else result)"

definition cover_letter_fallback :: string where
  "cover_letter_fallback =
     ''Dear Hiring Team,'' @ nl @ nl
     @ ''I'm excited to apply for this role. My background aligns with the position's core requirements, and I've delivered measurable results in related projects.''
     @ '' I'm particularly drawn to your focus on impact and quality. I'd welcome the chance to discuss how I can contribute.'' @ nl @ nl
     @ ''Best regards,'' @ nl @ ''Your Name''"

definition generate_cover_letter ::
    "bool \<Rightarrow> string \<Rightarrow> string \<Rightarrow> string \<Rightarrow> string list \<Rightarrow> string" where
  "generate_cover_letter available result resume_text jd_text skills =
     (if \<not> available then cover_letter_fallback
      else if startswith result ''Error:'' then cover_letter_fallback
      else result)"

section \<open>Example inputs\<close>

definition empty_profile :: profile_data where
  \<comment> \<open>the profile \<open>{}\<close>\<close>
  "empty_profile = \<lparr>pd_resume_analysis = None, pd_skills = None, pd_skill_proficiency = None,
     pd_projects = None, pd_certifications = None, pd_extracurricular = None,
     pd_github_stats = None, pd_learning_progress = None, pd_interview_scores = None\<rparr>"

definition full_resume :: "real dict" where
  "full_resume = [(''ats_score'', 100), (''has_summary'', 1),
     (''has_quantifiable_achievements'', 1), (''keyword_density'', 1),
     (''formatting_score'', 100), (''sections_count'', 5)]"

definition full_skills :: "string list" where
  "full_skills = [''Python'', ''Communication'', ''Java'', ''SQL'', ''React'', ''Git'',
     ''Docker'', ''Linux'', ''HTML'', ''CSS'', ''AWS'', ''Leadership'', ''Teamwork'',
     ''Statistics'', ''Pandas'']"

definition example_project :: "string \<Rightarrow> project" where
  "example_project lang = \<lparr>p_name = Some ''Planner'',
     p_description = Some ''A complex scheduling service'',
     p_github_url = Some ''https://github.com/user/planner'',
     p_demo_url = Some ''https://planner.example.org'',
     p_stars = Some 4, p_language = Some lang\<rparr>"

definition full_projects :: "project list" where
  "full_projects = map example_project
     [''Python'', ''Java'', ''Go'', ''Rust'', ''Python'', ''Java'', ''Go'', ''Rust'']"

definition example_cert :: "string \<Rightarrow> certification" where
  "example_cert d = \<lparr>c_name = Some ''Cloud Practitioner'', c_provider = Some ''AWS'',
     c_date = Some d\<rparr>"

definition example_activity :: activity where
  "example_activity = \<lparr>a_role = Some ''Team Lead'',
     a_achievements = Some [''Won the regional final''], a_impact = None\<rparr>"

definition full_github :: "real dict" where
  "full_github = [(''public_repos'', 15), (''total_contributions'', 500),
     (''total_stars'', 50), (''longest_streak'', 30)]"

definition full_learning :: "real dict" where
  "full_learning = [(''completed_courses'', 10), (''in_progress_courses'', 5),
     (''total_hours'', 100)]"

definition full_interview :: "real dict" where
  "full_interview = [(''questions_practiced'', 50), (''average_score'', 100),
     (''improvement_rate'', 20)]"

definition full_profile :: profile_data where
  \<comment> \<open>every category at 100 percent when the year is 2026\<close>
  "full_profile = \<lparr>pd_resume_analysis = Some full_resume, pd_skills = Some full_skills,
     pd_skill_proficiency = Some [(''Python'', 100)],
     pd_projects = Some full_projects,
     pd_certifications = Some (replicate 8 (example_cert ''2025-03-01'')),
     pd_extracurricular = Some (replicate 6 example_activity),
     pd_github_stats = Some full_github, pd_learning_progress = Some full_learning,
     pd_interview_scores = Some full_interview\<rparr>"




definition three_skills :: profile_data where
  "three_skills = empty_profile\<lparr>pd_skills := Some [''Python'', ''React'', ''AWS'']\<rparr>"

definition empty_response_error :: string where
  \<comment> \<open>what \<open>call_openrouter_llm\<close> returns when the content of the response is empty\<close>
  "empty_response_error = ''Error: Empty response from model''"

definition software_development :: category_info where
  \<comment> \<open>the catalog entry \<open>INTERNSHIP_CATEGORIES['Software Development']\<close>\<close>
  "software_development = get INTERNSHIP_CATEGORIES ''Software Development''
     \<lparr>ci_required_skills = [], ci_preferred_skills = [], ci_keywords = [],
      ci_avg_stipend_range = [], ci_duration = []\<rparr>"










section \<open>Properties of the category scorers\<close>

subsection \<open>Auxiliary facts\<close>







subsection \<open>Upper bounds: the cap at 100\<close>









subsection \<open>Lower bounds\<close>









subsection \<open>Claim C2\<close>




subsection \<open>Claim C3\<close>

text \<open>
  C3, as stated: for every category scorer the empty input yields a hardcoded default, and
  that default is one of 0, 40 or 50 in every category. The resume scorer and the skills
  scorer have no branch for the empty input: the formatting default of 70 gives an empty
  resume analysis 14, and the base score for missing proficiency data gives an empty
  skills list 20.
\<close>

theorem C3_default_not_0_40_50:
  "percentage (score_resume []) = 14 \<and> percentage (score_resume []) \<notin> {0, 40, 50}
   \<and> percentage (score_skills [] []) = 20 \<and> percentage (score_skills [] []) \<notin> {0, 40, 50}"
  by (simp add: score_resume_def score_skills_def get_def of_bool_real_def)

text \<open>
  C3, amended: the empty input yields a fixed score in every category: 0 with the text of
  the early return for projects, certifications, extracurricular activities and GitHub, 50
  for learning, 40 for interview readiness, and, computed by the formula, 14 for the resume
  and 20 for the skills.
\<close>

theorem C3_empty_input_defaults:
  "percentage (score_resume []) = 14
   \<and> percentage (score_skills [] []) = 20
   \<and> score_projects [] = \<lparr>percentage = 0, details = [Txt ''No projects found'']\<rparr>
   \<and> score_certifications y [] = \<lparr>percentage = 0, details = [Txt ''No certifications'']\<rparr>
   \<and> score_extracurricular []
       = \<lparr>percentage = 0, details = [Txt ''No extracurricular activities'']\<rparr>
   \<and> score_github [] = \<lparr>percentage = 0, details = [Txt ''No GitHub activity'']\<rparr>
   \<and> score_learning [] = \<lparr>percentage = 50, details = [Txt ''No learning data'']\<rparr>
   \<and> score_interview_prep []
       = \<lparr>percentage = 40, details = [Txt ''No interview practice data'']\<rparr>"
  by (simp add: score_resume_def score_skills_def score_projects_def
        score_certifications_def score_extracurricular_def score_github_def
        score_learning_def score_interview_prep_def get_def of_bool_real_def)

section \<open>Properties of the composite score\<close>

lemma weighted_total_eq:
  "weighted_total y p =
     percentage (score_resume (get_or (pd_resume_analysis p) [])) / 100 * 127.5
     + percentage (score_skills (get_or (pd_skills p) [])
                                (get_or (pd_skill_proficiency p) [])) / 100 * 170
     + percentage (score_projects (get_or (pd_projects p) [])) / 100 * 153
     + percentage (score_certifications y (get_or (pd_certifications p) [])) / 100 * 102
     + percentage (score_extracurricular (get_or (pd_extracurricular p) [])) / 100 * 85
     + percentage (score_github (get_or (pd_github_stats p) [])) / 100 * 85
     + percentage (score_learning (get_or (pd_learning_progress p) [])) / 100 * 68
     + percentage (score_interview_prep (get_or (pd_interview_scores p) [])) / 100 * 59.5"
  by (simp add: weighted_total_def component_percentages_def add_weighted_def Let_def
        score_data.defs)








lemma percentile_eq:
  "percentile (calculate_comprehensive_score y p) = calculate_percentile (weighted_total y p)"
  by (simp add: calculate_comprehensive_score_def Let_def)





subsection \<open>Claim C4\<close>




subsection \<open>Claim C10\<close>

text \<open>
  C10: the percentile is not bounded by 100. For every profile whose composite total is at
  least 810 the percentile in the result of \<open>calculate_comprehensive_score\<close> is greater than
  100; when all eight category percentages are 100 the total is 850 and the percentile is
  105. The total 850 is reached by \<open>full_profile\<close>.
\<close>

theorem C10_percentile_above_100:
  "(810 \<le> weighted_total y p \<longrightarrow> 100 < percentile (calculate_comprehensive_score y p))
   \<and> (list_all (\<lambda>cs. percentage (snd cs) = 100) (component_percentages y p) \<longrightarrow>
        weighted_total y p = 850 \<and> percentile (calculate_comprehensive_score y p) = 105)"
proof -
  have a: "100 < percentile (calculate_comprehensive_score y p)" if "810 \<le> weighted_total y p"
  proof -
    have "6 \<le> (weighted_total y p - 750) / 10"
      using that by simp
    then have "6 \<le> \<lfloor>(weighted_total y p - 750) / 10\<rfloor>"
      by (simp add: le_floor_iff)
    then show ?thesis
      using that unfolding percentile_eq calculate_percentile_def py_trunc_def by simp
  qed
  have b: "weighted_total y p = 850 \<and> percentile (calculate_comprehensive_score y p) = 105"
    if h: "list_all (\<lambda>cs. percentage (snd cs) = 100) (component_percentages y p)"
  proof -
    have t: "weighted_total y p = 850"
      using h unfolding weighted_total_eq by (simp add: component_percentages_def)
    show ?thesis
      unfolding percentile_eq t calculate_percentile_def py_trunc_def by simp
  qed
  show ?thesis
    using a b by blast
qed

theorem C10_percentile_above_100_witness:
  "list_all (\<lambda>cs. percentage (snd cs) = 100) (component_percentages 2026 full_profile)
   \<and> 810 \<le> weighted_total 2026 full_profile
   \<and> weighted_total 2026 full_profile = 850
   \<and> percentile (calculate_comprehensive_score 2026 full_profile) = 105
   \<and> 100 < percentile (calculate_comprehensive_score 2026 full_profile)"
proof -
  have h: "list_all (\<lambda>cs. percentage (snd cs) = 100) (component_percentages 2026 full_profile)"
    by code_simp
  show ?thesis
    using h C10_percentile_above_100 [of 2026 full_profile] by simp
qed

subsection \<open>Claim C8\<close>






section \<open>Properties of the internship matcher\<close>

subsection \<open>Claim C1\<close>

lemma software_development_entry:
  "map_of INTERNSHIP_CATEGORIES ''Software Development'' = Some software_development"
  by (simp add: INTERNSHIP_CATEGORIES_def software_development_def get_def)

text \<open>
  C1, as stated: for the skills Python, React and AWS and the category Software Development
  the required match is 0 of 3, and therefore the skill score is 0, whatever the overlap
  with the preferred skills. The skill score blends both ratios: Python is one of the five
  preferred skills, and the skill score is 3.6.
\<close>

theorem C1_skill_score_not_zero:
  "map_of INTERNSHIP_CATEGORIES ''Software Development'' = Some software_development
   \<and> required_match [''Python'', ''React'', ''AWS''] software_development = 0
   \<and> skill_score [''Python'', ''React'', ''AWS''] software_development \<noteq> 0"
proof -
  have a: "required_match [''Python'', ''React'', ''AWS''] software_development = 0"
    by code_simp
  have b: "skill_score [''Python'', ''React'', ''AWS''] software_development \<noteq> 0"
    by code_simp
  show ?thesis
    using software_development_entry a b by blast
qed

text \<open>
  C1, amended: for the skills Python, React and AWS and the category Software Development
  the required match is 0 of 3 and the preferred match is 1 of 5, so the skill score is
  0.3 * 0.2 * 60 = 3.6, which is also the match score of a profile that has these skills and
  nothing else. In general the skill score is 42 times the required match plus 18 times the
  preferred match.
\<close>

theorem C1_skill_score_value:
  "required_match [''Python'', ''React'', ''AWS''] software_development = 0
   \<and> preferred_match [''Python'', ''React'', ''AWS''] software_development = 1 / 5
   \<and> skill_score [''Python'', ''React'', ''AWS''] software_development = 18 / 5
   \<and> map_of (calculate_match_score three_skills ''Software Development'') ''match_score''
       = Some (Number (18 / 5))
   \<and> map_of (calculate_match_score three_skills ''Software Development'')
        ''skill_match_percentage'' = Some (Number 0)
   \<and> skill_score sk info = required_match sk info * 42 + preferred_match sk info * 18"
proof -
  have a: "required_match [''Python'', ''React'', ''AWS''] software_development = 0"
    by code_simp
  have b: "preferred_match [''Python'', ''React'', ''AWS''] software_development = 1 / 5"
    by code_simp
  have c: "skill_score [''Python'', ''React'', ''AWS''] software_development = 18 / 5"
    by code_simp
  have d: "map_of (calculate_match_score three_skills ''Software Development'')
             ''match_score'' = Some (Number (18 / 5))"
    by code_simp
  have e: "map_of (calculate_match_score three_skills ''Software Development'')
             ''skill_match_percentage'' = Some (Number 0)"
    by code_simp
  have f: "skill_score sk info = required_match sk info * 42 + preferred_match sk info * 18"
    by (simp add: skill_score_def algebra_simps)
  show ?thesis
    using a b c d e f by blast
qed

subsection \<open>Claim C9\<close>

lemma match_analysis_keys:
  "map fst (match_analysis p info) =
     [''match_score'', ''skill_match_percentage'', ''required_skills_met'',
      ''required_skills_total'', ''preferred_skills_met'', ''relevant_projects'',
      ''relevant_certifications'', ''missing_required_skills'', ''missing_preferred_skills'',
      ''readiness_level'', ''recommendations'', ''category_info'']"
  by (simp add: match_analysis_def Let_def)

lemma match_analysis_lookup:
  "map_of (match_analysis p info) ''match_score'' = Some (Number (min (match_total p info) 100))"
  "map_of (match_analysis p info) ''readiness_level''
     = Some (Text (determine_readiness (match_total p info)))"
  "map_of (match_analysis p info) ''error'' = None"
  by (simp_all add: match_analysis_def Let_def)

lemma catalog_lookup:
  assumes "cat \<in> set (map fst INTERNSHIP_CATEGORIES)"
  shows "\<exists>info. map_of INTERNSHIP_CATEGORIES cat = Some info"
  using assms by (metis map_of_eq_None_iff not_Some_eq set_map)

lemma valid_category_fields:
  assumes "cat \<in> set (map fst INTERNSHIP_CATEGORIES)"
  shows "map_of (calculate_match_score p cat) ''error'' = None
         \<and> map_of (calculate_match_score p cat) ''readiness_level'' \<noteq> None"
proof -
  obtain info where "map_of INTERNSHIP_CATEGORIES cat = Some info"
    using catalog_lookup [OF assms] by blast
  then show ?thesis
    by (simp add: calculate_match_score_def match_analysis_lookup)
qed

text \<open>
  C9, as stated: for every category name not among the 11 keys of the catalog the result is
  the error mapping. The catalog has 12 keys, from Software Development to Research, and
  each of the 12 gives a full analysis with no error entry: no choice of 11 keys separates
  the names with an error from the names without.
\<close>

theorem C9_catalog_has_12_keys:
  "length (map fst INTERNSHIP_CATEGORIES) = 12
   \<and> distinct (map fst INTERNSHIP_CATEGORIES)
   \<and> list_all (\<lambda>cat. map_of (calculate_match_score empty_profile cat) ''error'' = None
                      \<and> map_of (calculate_match_score empty_profile cat) ''readiness_level''
                          \<noteq> None)
        (map fst INTERNSHIP_CATEGORIES)"
proof -
  have a: "length (map fst INTERNSHIP_CATEGORIES) = 12"
    by (simp add: INTERNSHIP_CATEGORIES_def)
  have b: "distinct (map fst INTERNSHIP_CATEGORIES)"
    by (simp add: INTERNSHIP_CATEGORIES_def)
  have c: "list_all (\<lambda>cat. map_of (calculate_match_score empty_profile cat) ''error'' = None
                      \<and> map_of (calculate_match_score empty_profile cat) ''readiness_level''
                          \<noteq> None)
        (map fst INTERNSHIP_CATEGORIES)"
    unfolding list_all_iff using valid_category_fields by blast
  show ?thesis
    using a b c by blast
qed

text \<open>
  C9, amended: for every candidate profile and every category name not among the 12 keys of
  the catalog, \<open>calculate_match_score\<close> returns the mapping with exactly the two entries
  \<open>match_score = 0\<close> and \<open>error = 'Invalid category'\<close>, and none of the fields of the
  analysis.
\<close>

theorem C9_invalid_category:
  assumes "cat \<notin> set (map fst INTERNSHIP_CATEGORIES)"
  shows "calculate_match_score p cat
           = [(''match_score'', Number 0), (''error'', Text ''Invalid category'')]
         \<and> map_of (calculate_match_score p cat) ''readiness_level'' = None
         \<and> map_of (calculate_match_score p cat) ''missing_required_skills'' = None
         \<and> map_of (calculate_match_score p cat) ''missing_preferred_skills'' = None
         \<and> map_of (calculate_match_score p cat) ''recommendations'' = None"
proof -
  have "map_of INTERNSHIP_CATEGORIES cat = None"
    using assms by (simp add: map_of_eq_None_iff)
  then have "calculate_match_score p cat
           = [(''match_score'', Number 0), (''error'', Text ''Invalid category'')]"
    by (simp add: calculate_match_score_def)
  then show ?thesis
    by simp
qed

theorem C9_invalid_category_witness:
  "''Astrology'' \<notin> set (map fst INTERNSHIP_CATEGORIES)
   \<and> calculate_match_score three_skills ''Astrology''
       = [(''match_score'', Number 0), (''error'', Text ''Invalid category'')]"
proof -
  have h: "''Astrology'' \<notin> set (map fst INTERNSHIP_CATEGORIES)"
    by (simp add: INTERNSHIP_CATEGORIES_def)
  show ?thesis
    using h C9_invalid_category [OF h, of three_skills] by blast
qed

subsection \<open>Claim C5\<close>

lemma match_score_lookup:
  "map_of (calculate_match_score p cat) ''match_score''
     = Some (Number (case map_of INTERNSHIP_CATEGORIES cat of
                       None \<Rightarrow> 0 | Some info \<Rightarrow> min (match_total p info) 100))"
  by (simp add: calculate_match_score_def match_analysis_lookup split: option.split)

lemma card_inter_mono:
  assumes "A \<subseteq> B" "finite B"
  shows "card (A \<inter> R) \<le> card (B \<inter> R)"
proof (rule card_mono)
  show "finite (B \<inter> R)"
    using assms(2) by simp
  show "A \<inter> R \<subseteq> B \<inter> R"
    using assms(1) by blast
qed

lemma ratio_mono:
  assumes "lower_set sk \<subseteq> lower_set sk'"
  shows "real (card (lower_set sk \<inter> R)) / real (max (card R) 1)
           \<le> real (card (lower_set sk' \<inter> R)) / real (max (card R) 1)"
proof -
  have "card (lower_set sk \<inter> R) \<le> card (lower_set sk' \<inter> R)"
    using assms by (intro card_inter_mono) (simp_all add: lower_set_def)
  then show ?thesis
    by (simp add: divide_right_mono)
qed

lemma skill_score_mono:
  assumes "lower_set sk \<subseteq> lower_set sk'"
  shows "skill_score sk info \<le> skill_score sk' info"
proof -
  have r: "required_match sk info \<le> required_match sk' info"
    unfolding required_match_def Let_def by (rule ratio_mono [OF assms])
  have q: "preferred_match sk info \<le> preferred_match sk' info"
    unfolding preferred_match_def Let_def by (rule ratio_mono [OF assms])
  show ?thesis
    unfolding skill_score_def using r q by simp
qed

lemma match_total_mono:
  assumes "lower_set (get_or (pd_skills p) []) \<subseteq> lower_set sk'"
  shows "match_total p info \<le> match_total (p\<lparr>pd_skills := Some sk'\<rparr>) info"
  using skill_score_mono [OF assms, of info]
  by (simp add: match_total_def calculate_experience_score_def get_or_def)

text \<open>
  C5: the match score never decreases when more skills appear in the candidate's skill list
  and nothing else changes. For every profile, every category name and every new skill list
  whose lower-cased skills include those of the old list, both calls return a match score,
  and the score for the new list is at least the score for the old one. Adding a required
  skill to the list is the case where the new list is the old list with one more element.
\<close>

theorem C5_match_score_monotone:
  assumes "lower_set (get_or (pd_skills p) []) \<subseteq> lower_set sk'"
  shows "\<exists>a b. map_of (calculate_match_score p cat) ''match_score'' = Some (Number a)
           \<and> map_of (calculate_match_score (p\<lparr>pd_skills := Some sk'\<rparr>) cat) ''match_score''
               = Some (Number b)
           \<and> a \<le> b"
proof (cases "map_of INTERNSHIP_CATEGORIES cat")
  case None
  then show ?thesis
    by (simp add: match_score_lookup)
next
  case (Some info)
  have "min (match_total p info) 100 \<le> min (match_total (p\<lparr>pd_skills := Some sk'\<rparr>) info) 100"
    using match_total_mono [OF assms, of info] by (simp add: min_le_iff_disj)
  with Some show ?thesis
    by (simp add: match_score_lookup)
qed

theorem C5_match_score_monotone_witness:
  "lower_set (get_or (pd_skills three_skills) [])
     \<subseteq> lower_set [''Python'', ''React'', ''AWS'', ''Programming'']
   \<and> map_of (calculate_match_score three_skills ''Software Development'') ''match_score''
       = Some (Number (18 / 5))
   \<and> map_of (calculate_match_score
               (three_skills\<lparr>pd_skills := Some [''Python'', ''React'', ''AWS'', ''Programming'']\<rparr>)
               ''Software Development'') ''match_score''
       = Some (Number (88 / 5))
   \<and> (\<exists>a b. map_of (calculate_match_score three_skills ''Software Development'')
               ''match_score'' = Some (Number a)
          \<and> map_of (calculate_match_score
               (three_skills\<lparr>pd_skills := Some [''Python'', ''React'', ''AWS'', ''Programming'']\<rparr>)
               ''Software Development'') ''match_score'' = Some (Number b)
          \<and> a \<le> b)"
proof -
  have h: "lower_set (get_or (pd_skills three_skills) [])
     \<subseteq> lower_set [''Python'', ''React'', ''AWS'', ''Programming'']"
    by (simp add: three_skills_def get_or_def lower_set_def)
  have a: "map_of (calculate_match_score three_skills ''Software Development'') ''match_score''
       = Some (Number (18 / 5))"
    by code_simp
  have b: "map_of (calculate_match_score
               (three_skills\<lparr>pd_skills := Some [''Python'', ''React'', ''AWS'', ''Programming'']\<rparr>)
               ''Software Development'') ''match_score''
       = Some (Number (88 / 5))"
    by code_simp
  show ?thesis
    using h a b C5_match_score_monotone [OF h, of "''Software Development''"] by blast
qed

subsection \<open>Claim C7\<close>

lemma make_entry_catalog:
  assumes "map_of INTERNSHIP_CATEGORIES cat = Some info"
  shows "make_entry p cat =
           Some \<lparr>category = cat, match_score = min (match_total p info) 100,
                 readiness = determine_readiness (match_total p info),
                 analysis = calculate_match_score p cat\<rparr>"
  using assms
  by (simp add: make_entry_def Let_def calculate_match_score_def match_analysis_lookup)

lemma all_entries_catalog:
  assumes "set cats \<subseteq> set (map fst INTERNSHIP_CATEGORIES)"
  shows "\<exists>es. all_entries p cats = Some es \<and> map category es = cats
           \<and> (\<forall>e\<in>set es. analysis e = calculate_match_score p (category e)
                 \<and> map_of (analysis e) ''match_score'' = Some (Number (match_score e)))"
  using assms
proof (induction cats)
  case Nil
  then show ?case by simp
next
  case (Cons cat cats)
  then obtain es where es: "all_entries p cats = Some es" "map category es = cats"
    "\<forall>e\<in>set es. analysis e = calculate_match_score p (category e)
                 \<and> map_of (analysis e) ''match_score'' = Some (Number (match_score e))"
    by auto
  from Cons.prems obtain info where info: "map_of INTERNSHIP_CATEGORIES cat = Some info"
    using catalog_lookup [of cat] by auto
  let ?e = "\<lparr>category = cat, match_score = min (match_total p info) 100,
             readiness = determine_readiness (match_total p info),
             analysis = calculate_match_score p cat\<rparr>"
  have m: "map_of (calculate_match_score p cat) ''match_score''
             = Some (Number (min (match_total p info) 100))"
    using info by (simp add: match_score_lookup)
  have a: "all_entries p (cat # cats) = Some (?e # es)"
    using es(1) make_entry_catalog [OF info, of p] by simp
  have b: "map category (?e # es) = cat # cats"
    using es(2) by simp
  have c: "\<forall>e\<in>set (?e # es). analysis e = calculate_match_score p (category e)
                 \<and> map_of (analysis e) ''match_score'' = Some (Number (match_score e))"
    using es(3) m by auto
  show ?case
    by (rule exI [of _ "?e # es"]) (intro conjI a b c)
qed

lemma sort_desc_sorted: "sorted_wrt (\<lambda>a b. match_score b \<le> match_score a) (sort_desc xs)"
proof -
  have "sorted (map (\<lambda>x. - match_score x) (sort_key (\<lambda>x. - match_score x) xs))"
    by (rule sorted_sort_key)
  then show ?thesis
    by (simp add: sort_desc_def sorted_map)
qed

lemma sort_desc_set: "set (sort_desc xs) = set xs"
  by (simp add: sort_desc_def)

lemma sort_desc_stable:
  "filter (\<lambda>e. match_score e = s) (sort_desc xs) = filter (\<lambda>e. match_score e = s) xs"
proof -
  have "filter (\<lambda>y. - match_score y = - s) (sort_key (\<lambda>x. - match_score x) xs)
          = filter (\<lambda>y. - match_score y = - s) xs"
    by (rule sort_key_stable)
  then show ?thesis
    by (simp add: sort_desc_def)
qed

lemma sort_desc_length: "length (sort_desc xs) = length xs"
  by (simp add: sort_desc_def)

lemma catalog_length: "length (map fst INTERNSHIP_CATEGORIES) = 12"
  by (simp add: INTERNSHIP_CATEGORIES_def)

text \<open>
  C7, as stated: \<open>find_best_matches\<close> returns the categories by descending match score,
  truncated to at most \<open>top_n\<close> entries, ties in the order of the catalog. The slice
  \<open>matches[:top_n]\<close> with a negative \<open>top_n\<close> drops entries from the end instead: for
  \<open>top_n = -1\<close> the result has 11 entries, which is not at most -1.
\<close>

theorem C7_negative_top_n:
  "\<exists>ms. find_best_matches three_skills (- 1) = Some ms \<and> length ms = 11
        \<and> \<not> int (length ms) \<le> - 1"
proof -
  obtain es where es: "all_entries three_skills (map fst INTERNSHIP_CATEGORIES) = Some es"
    "map category es = map fst INTERNSHIP_CATEGORIES"
    using all_entries_catalog [of "map fst INTERNSHIP_CATEGORIES" three_skills] by auto
  have "length es = 12"
    using es(2) catalog_length by (metis length_map)
  then have "length (slice_to (sort_desc es) (- 1)) = 11"
    by (simp add: slice_to_def sort_desc_length)
  then show ?thesis
    using es(1) by (simp add: find_best_matches_def)
qed

text \<open>
  C7, amended: for \<open>top_n\<close> of at least 0, \<open>find_best_matches\<close> returns the first \<open>top_n\<close>
  entries (all of them when there are fewer) of the list that has one entry for each of the
  12 categories of the catalog, sorted by descending match score; entries with equal match
  score keep the order of the catalog.
\<close>

theorem C7_ranking:
  assumes "0 \<le> top_n"
  shows "\<exists>es ms. all_entries p (map fst INTERNSHIP_CATEGORIES) = Some es
           \<and> map category es = map fst INTERNSHIP_CATEGORIES
           \<and> (\<forall>e\<in>set es. analysis e = calculate_match_score p (category e)
                 \<and> map_of (analysis e) ''match_score'' = Some (Number (match_score e)))
           \<and> find_best_matches p top_n = Some ms
           \<and> ms = take (nat top_n) (sort_desc es)
           \<and> int (length ms) \<le> top_n
           \<and> set (sort_desc es) = set es \<and> length (sort_desc es) = length es
           \<and> sorted_wrt (\<lambda>a b. match_score b \<le> match_score a) (sort_desc es)
           \<and> sorted_wrt (\<lambda>a b. match_score b \<le> match_score a) ms
           \<and> (\<forall>s. filter (\<lambda>e. match_score e = s) (sort_desc es)
                     = filter (\<lambda>e. match_score e = s) es)"
proof -
  obtain es where es: "all_entries p (map fst INTERNSHIP_CATEGORIES) = Some es"
    "map category es = map fst INTERNSHIP_CATEGORIES"
    "\<forall>e\<in>set es. analysis e = calculate_match_score p (category e)
                 \<and> map_of (analysis e) ''match_score'' = Some (Number (match_score e))"
    using all_entries_catalog [of "map fst INTERNSHIP_CATEGORIES" p] by auto
  define ms where "ms = take (nat top_n) (sort_desc es)"
  have f: "find_best_matches p top_n = Some ms"
    using es(1) assms by (simp add: find_best_matches_def slice_to_def ms_def)
  have l: "int (length ms) \<le> top_n"
    using assms by (simp add: ms_def)
  have s: "sorted_wrt (\<lambda>a b. match_score b \<le> match_score a) ms"
    unfolding ms_def using sort_desc_sorted [of es] by (rule sorted_wrt_take)
  show ?thesis
    using es f l s ms_def sort_desc_set [of es] sort_desc_length [of es] sort_desc_sorted [of es]
      sort_desc_stable [of _ es]
    by blast
qed

theorem C7_ranking_witness:
  "(0::int) \<le> 5
   \<and> (\<exists>ms. find_best_matches three_skills 5 = Some ms
         \<and> map (\<lambda>e. (category e, match_score e)) ms
             = [(''Data Science/Analytics'', 14), (''Software Development'', 18 / 5),
                (''Web Development'', 18 / 5), (''Cloud Computing'', 3),
                (''Mobile App Development'', 0)]
         \<and> int (length ms) \<le> 5
         \<and> sorted_wrt (\<lambda>a b. match_score b \<le> match_score a) ms)"
proof -
  have v: "map_option (map (\<lambda>e. (category e, match_score e))) (find_best_matches three_skills 5)
           = Some [(''Data Science/Analytics'', 14), (''Software Development'', 18 / 5),
                (''Web Development'', 18 / 5), (''Cloud Computing'', 3),
                (''Mobile App Development'', 0)]"
    by code_simp
  have h: "(0::int) \<le> 5"
    by simp
  show ?thesis
    using v h C7_ranking [OF h, of three_skills] by auto
qed

section \<open>Properties of the text generators\<close>

subsection \<open>Occurrences of a text in a concatenation\<close>

lemma sublist_after:
  assumes "sublist p (P @ X)" "P \<noteq> []" "last P \<notin> set p"
  shows "sublist p P \<or> sublist p X"
proof -
  consider "sublist p P" | "sublist p X"
    | p1 p2 where "p = p1 @ p2" "suffix p1 P" "prefix p2 X"
    using assms(1) unfolding sublist_append by blast
  then show ?thesis
  proof cases
    case 3
    show ?thesis
    proof (cases "p1 = []")
      case True
      then show ?thesis
        using 3 by auto
    next
      case False
      obtain zs where "P = zs @ p1"
        using 3(2) by (auto simp: suffix_def)
      then have "last p1 = last P"
        using False by simp
      then have "last P \<in> set p"
        using False 3(1) by (metis Un_iff last_in_set set_append)
      then show ?thesis
        using assms(3) by simp
    qed
  qed simp_all
qed

lemma sublist_before:
  assumes "sublist p (X @ T)" "T \<noteq> []" "hd T \<notin> set (butlast p)"
  shows "sublist p X \<or> sublist p T \<or> suffix (butlast p) X"
proof -
  consider "sublist p X" | "sublist p T"
    | p1 p2 where "p = p1 @ p2" "suffix p1 X" "prefix p2 T"
    using assms(1) unfolding sublist_append by blast
  then show ?thesis
  proof cases
    case 3
    show ?thesis
    proof (cases p2)
      case Nil
      then show ?thesis
        using 3 by auto
    next
      case (Cons c cs)
      then have c: "c = hd T"
        using 3(3) assms(2) by (cases T) auto
      show ?thesis
      proof (cases "cs = []")
        case True
        then have "butlast p = p1"
          using 3(1) Cons by simp
        then show ?thesis
          using 3(2) by simp
      next
        case False
        then have "butlast p = p1 @ c # butlast cs"
          using 3(1) Cons by (simp add: butlast_append)
        then show ?thesis
          using assms(3) c by simp
      qed
    qed
  qed simp_all
qed

lemma sublist_join:
  assumes "c \<notin> set p" "p \<noteq> []" "sublist p (join [c] xs)"
  shows "\<exists>x\<in>set xs. sublist p x"
  using assms(3)
proof (induction "[c]" xs rule: join.induct)
  case 1
  then show ?case
    using assms(2) by simp
next
  case (2 x)
  then show ?case
    by simp
next
  case (3 x y ys)
  have "sublist p ((x @ [c]) @ join [c] (y # ys))"
    using 3(2) by simp
  then consider "sublist p (x @ [c])" | "sublist p (join [c] (y # ys))"
    using sublist_after [of p "x @ [c]" "join [c] (y # ys)"] assms(1) by auto
  then show ?case
  proof cases
    case 1
    have "hd [c] \<notin> set (butlast p)"
      using assms(1) by (auto dest: in_set_butlastD)
    then consider "sublist p x" | "sublist p [c]" | "suffix (butlast p) x" "\<not> sublist p x"
      using sublist_before [OF 1] by auto
    then show ?thesis
    proof cases
      case 2
      then have "set p \<subseteq> {c}"
        using set_mono_sublist by fastforce
      then show ?thesis
        using assms(1,2) by (cases p) auto
    next
      case 3
      have "sublist p (x @ [c])"
        by (rule 1)
      then obtain ps ss where e: "x @ [c] = ps @ p @ ss"
        by (auto simp: sublist_def)
      have "ss \<noteq> []"
      proof
        assume "ss = []"
        then have "last p = c"
          using e assms(2) by (metis append_Nil2 last_appendR last_snoc)
        then show False
          using assms(1,2) by (metis last_in_set)
      qed
      then obtain ss' where "ss = ss' @ [c]" "x = ps @ p @ ss'"
        using e by (metis append_assoc butlast_append butlast_snoc snoc_eq_iff_butlast)
      then show ?thesis
        using 3(2) by (auto simp: sublist_def)
    qed auto
  next
    case 2
    then show ?thesis
      using 3(1) by auto
  qed
qed

lemma sublist_join_member:
  assumes "x \<in> set xs"
  shows "sublist x (join sep xs)"
  using assms
proof (induction sep xs rule: join.induct)
  case (1 sep)
  then show ?case
    by simp
next
  case (2 sep y)
  then show ?case
    by simp
next
  case (3 sep y z zs)
  show ?case
  proof (cases "x = y")
    case True
    then show ?thesis
      by simp
  next
    case False
    then have "sublist x (join sep (z # zs))"
      using 3 by simp
    moreover have "sublist (join sep (z # zs)) ((y @ sep) @ join sep (z # zs))"
      by (rule sublist_append_leftI)
    ultimately show ?thesis
      by (metis append_assoc join.simps(3) sublist_order.order.trans)
  qed
qed

lemma sublist_strip: "sublist (strip s) s"
proof -
  have "suffix (dropWhile is_space (rev (dropWhile is_space s))) (rev (dropWhile is_space s))"
    by (rule suffix_dropWhile)
  then have "prefix (strip s) (dropWhile is_space s)"
    by (simp add: strip_def suffix_to_prefix)
  moreover have "suffix (dropWhile is_space s) s"
    by (rule suffix_dropWhile)
  ultimately show ?thesis
    by (meson prefix_imp_sublist suffix_imp_sublist sublist_order.order.trans)
qed

subsection \<open>The lines of the generated recommendations\<close>

lemma improvements_start_no_error:
  "list_all (\<lambda>l. \<not> sublist ''Error:'' l) improvements_start"
  by code_simp

lemma improvements_end_no_error:
  "list_all (\<lambda>l. \<not> sublist ''Error:'' l) improvements_end"
  by code_simp

lemma join_chars: "set (join sep xs) \<subseteq> set sep \<union> \<Union> (set ` set xs)"
  by (induction sep xs rule: join.induct) auto

lemma jd_keywords_letters:
  assumes "w \<in> set (jd_keywords jd_text)"
  shows "CHR '':'' \<notin> set w"
proof -
  have "w \<in> set (dedup (take 10 (filter (\<lambda>w. w \<notin> set common_buzzwords)
                                  (findall_words (lower jd_text)))))"
    using assms by (simp add: jd_keywords_def split: if_splits)
  then have "w \<in> set (take 10 (filter (\<lambda>w. w \<notin> set common_buzzwords)
                                  (findall_words (lower jd_text))))"
    by (simp add: dedup_def)
  then have "w \<in> set (filter (\<lambda>w. w \<notin> set common_buzzwords)
                                  (findall_words (lower jd_text)))"
    by (rule in_set_takeD)
  then have "w \<in> set (findall_words (lower jd_text))"
    by simp
  then have "list_all is_letter w"
    by (simp add: findall_words_def)
  moreover have "\<not> is_letter (CHR '':'')"
    by (simp add: is_letter_def)
  ultimately show ?thesis
    unfolding list_all_iff by blast
qed

lemma keyword_lines_no_error:
  assumes "l \<in> set (keyword_lines (jd_keywords jd_text))"
  shows "\<not> sublist ''Error:'' l"
proof
  assume s: "sublist ''Error:'' l"
  define K where "K = join '', '' (take 6 (jd_keywords jd_text))"
  have k: "CHR '':'' \<notin> set K"
    using join_chars [of "'', ''" "take 6 (jd_keywords jd_text)"] jd_keywords_letters
    unfolding K_def by (auto dest: in_set_takeD)
  have a: "\<not> sublist ''Error:'' (nl @ ''**Job-Specific Keywords to Include:**'')"
    by code_simp
  have b: "\<not> sublist ''Error:''
             (bullet @ '' Use them naturally in your experience descriptions and skills section'')"
    by code_simp
  have c: "\<not> sublist ''Error:'' (nl @ bullet @ '' Integrate these terms: '')"
    by code_simp
  have "l = (nl @ bullet @ '' Integrate these terms: '') @ K"
    using assms s a b by (auto simp: keyword_lines_def K_def split: if_splits)
  then have "sublist ''Error:'' ((nl @ bullet @ '' Integrate these terms: '') @ K)"
    using s by simp
  then consider "sublist ''Error:'' K"
    | p1 p2 where "''Error:'' = p1 @ p2" "suffix p1 (nl @ bullet @ '' Integrate these terms: '')"
        "prefix p2 K"
    using c unfolding sublist_append by blast
  then show False
  proof cases
    case 1
    then have "set ''Error:'' \<subseteq> set K"
      by (rule set_mono_sublist)
    then show False
      using k by simp
  next
    case 2
    show False
    proof (cases "p2 = []")
      case True
      then have "sublist ''Error:'' (nl @ bullet @ '' Integrate these terms: '')"
        using 2(1,2) by (metis append_Nil2 suffix_imp_sublist)
      then show False
        using c by simp
    next
      case False
      have "last (p1 @ p2) = CHR '':''"
        unfolding 2(1) [symmetric] by simp
      then have "last p2 = CHR '':''"
        using False by simp
      then have "CHR '':'' \<in> set p2"
        using False by (metis last_in_set)
      then show False
        using 2(3) k set_mono_prefix by blast
    qed
  qed
qed

lemma skill_line_no_error:
  assumes "\<not> sublist ''Error'' skill"
  shows "\<not> sublist ''Error:'' (''  - For '' @ skill
           @ '': Describe any related projects, coursework, or self-study'')"
proof
  let ?P = "''  - For ''"
  let ?T = "'': Describe any related projects, coursework, or self-study''"
  assume "sublist ''Error:'' (?P @ skill @ ?T)"
  then have s: "sublist ''Error:'' ((?P @ skill) @ ?T)"
    by simp
  have q: "sublist ''Error'' ''Error:''"
    by code_simp
  have t: "\<not> sublist ''Error:'' ?T"
    by code_simp
  have p: "\<not> sublist ''Error'' ?P"
    by code_simp
  have n: "\<not> sublist ''Error'' (?P @ skill)"
    using sublist_after [of "''Error''" ?P skill] p assms by auto
  have "hd ?T \<notin> set (butlast ''Error:'')"
    by simp
  then consider "sublist ''Error:'' (?P @ skill)" | "suffix (butlast ''Error:'') (?P @ skill)"
    using sublist_before [OF s] t by blast
  then show False
  proof cases
    case 1
    then have "sublist ''Error'' (?P @ skill)"
      using q by (meson sublist_order.order.trans)
    then show False
      using n by simp
  next
    case 2
    then have "sublist ''Error'' (?P @ skill)"
      by (simp add: suffix_imp_sublist)
    then show False
      using n by simp
  qed
qed

lemma missing_lines_no_error:
  assumes "\<forall>s\<in>set tm. \<not> sublist ''Error'' s" "l \<in> set (missing_lines tm)"
  shows "\<not> sublist ''Error:'' l"
proof -
  have a: "\<not> sublist ''Error:'' (nl @ ''**Address Missing Skills:**'')"
    by code_simp
  have b: "\<not> sublist ''Error:'' (bullet @ '' **Highlight Transferable Experience**: Show how your current experience relates to required skills'')"
    by code_simp
  show ?thesis
    using assms a b skill_line_no_error
    by (auto simp: missing_lines_def split: if_splits dest: in_set_takeD)
qed

lemma top_missing_no_error:
  assumes "\<forall>s\<in>set missing_skills. \<not> sublist ''Error'' s"
  shows "\<forall>s\<in>set (take 8 (dedup (map strip missing_skills))). \<not> sublist ''Error'' s"
proof
  fix s assume "s \<in> set (take 8 (dedup (map strip missing_skills)))"
  then have "s \<in> set (dedup (map strip missing_skills))"
    by (rule in_set_takeD)
  then have "s \<in> set (map strip missing_skills)"
    by (simp add: dedup_def)
  then obtain s' where s': "s' \<in> set missing_skills" "s = strip s'"
    by auto
  show "\<not> sublist ''Error'' s"
  proof
    assume "sublist ''Error'' s"
    then have "sublist ''Error'' s'"
      using s'(2) sublist_strip [of s'] by (meson sublist_order.order.trans)
    then show False
      using assms s'(1) by simp
  qed
qed

lemma fallback_no_error:
  assumes "\<forall>s\<in>set missing_skills. \<not> sublist ''Error'' s"
  shows "\<not> sublist ''Error:''
           (generate_resume_improvements_fallback resume_text jd_text missing_skills)"
proof
  assume "sublist ''Error:''
           (generate_resume_improvements_fallback resume_text jd_text missing_skills)"
  then have "sublist ''Error:'' (join [CHR 0x0A]
      (improvements_start @ keyword_lines (jd_keywords jd_text)
        @ missing_lines (take 8 (dedup (map strip missing_skills))) @ improvements_end))"
    by (simp add: generate_resume_improvements_fallback_def Let_def nl_def)
  then obtain l where l: "sublist ''Error:'' l"
    "l \<in> set improvements_start \<or> l \<in> set (keyword_lines (jd_keywords jd_text))
     \<or> l \<in> set (missing_lines (take 8 (dedup (map strip missing_skills))))
     \<or> l \<in> set improvements_end"
    using sublist_join [of "CHR 0x0A" "''Error:''"] by fastforce
  then show False
    using improvements_start_no_error improvements_end_no_error keyword_lines_no_error
      missing_lines_no_error [OF top_missing_no_error [OF assms]]
    unfolding list_all_iff by blast
qed

lemma contains_error_prefix:
  assumes "startswith e ''Error:''" "py_in e t"
  shows "sublist ''Error:'' t"
  using assms unfolding startswith_def py_in_def
  by (meson prefix_imp_sublist sublist_order.order.trans)

subsection \<open>Claim C6\<close>

text \<open>
  C6, as stated: whenever the provider call returns a text that starts with \<open>Error:\<close>, each
  of the three generators returns its hardcoded fallback text verbatim, and the returned text
  never contains the error text. The fallback of \<open>enhance_resume_section\<close> is not a fixed
  text: it is built from the job description and from the missing skills, one line for each
  of the first five. When the error text \<open>Error: Empty response from model\<close> is itself one of
  the missing skills, the result contains it, and the result for another list of missing
  skills is another text.
\<close>

theorem C6_fallback_contains_error_text:
  "startswith empty_response_error ''Error:''
   \<and> py_in empty_response_error
        (enhance_resume_section True empty_response_error [] [] [empty_response_error])
   \<and> enhance_resume_section True empty_response_error [] [] [empty_response_error]
       \<noteq> enhance_resume_section True empty_response_error [] [] []"
proof -
  let ?line = "''  - For '' @ empty_response_error
                 @ '': Describe any related projects, coursework, or self-study''"
  have a: "startswith empty_response_error ''Error:''"
    by (simp add: empty_response_error_def startswith_def)
  have s: "strip empty_response_error = empty_response_error"
    by code_simp
  have "?line \<in> set (missing_lines (take 8 (dedup (map strip [empty_response_error]))))"
    by (simp add: s dedup_def missing_lines_def)
  then have "sublist ?line
      (generate_resume_improvements_fallback [] [] [empty_response_error])"
    by (simp add: generate_resume_improvements_fallback_def Let_def sublist_join_member)
  moreover have "sublist empty_response_error ?line"
    by (rule sublist_appendI)
  ultimately have "sublist empty_response_error
      (generate_resume_improvements_fallback [] [] [empty_response_error])"
    by (meson sublist_order.order.trans)
  then have b: "py_in empty_response_error
        (enhance_resume_section True empty_response_error [] [] [empty_response_error])"
    using a by (simp add: enhance_resume_section_def py_in_def)
  have "\<not> sublist ''Error:'' (generate_resume_improvements_fallback [] [] [])"
    by (rule fallback_no_error) simp
  then have "\<not> py_in empty_response_error
        (enhance_resume_section True empty_response_error [] [] [])"
    using a contains_error_prefix [OF a] by (auto simp: enhance_resume_section_def)
  then have c: "enhance_resume_section True empty_response_error [] [] [empty_response_error]
       \<noteq> enhance_resume_section True empty_response_error [] [] []"
    using b by metis
  show ?thesis
    using a b c by blast
qed

text \<open>
  C6, amended: whenever the provider call returns a text that starts with \<open>Error:\<close>,
  \<open>generate_project_ideas\<close> and \<open>generate_cover_letter\<close> return their hardcoded fallback
  texts, and \<open>enhance_resume_section\<close> returns the text that
  \<open>_generate_resume_improvements_fallback\<close> builds from the job description and the missing
  skills, the same text as without a provider. The two hardcoded texts never contain the
  error text, and the generated text does not contain it when no missing skill contains
  \<open>Error\<close>.
\<close>

theorem C6_error_gives_fallback:
  assumes "startswith result ''Error:''"
  shows "generate_project_ideas available result resume_text skills = project_ideas_fallback
         \<and> generate_cover_letter available result resume_text jd_text skills
             = cover_letter_fallback
         \<and> enhance_resume_section available result resume_text jd_text missing_skills
             = generate_resume_improvements_fallback resume_text jd_text missing_skills
         \<and> enhance_resume_section available result resume_text jd_text missing_skills
             = enhance_resume_section False result' resume_text jd_text missing_skills
         \<and> \<not> py_in result (generate_project_ideas available result resume_text skills)
         \<and> \<not> py_in result (generate_cover_letter available result resume_text jd_text skills)
         \<and> ((\<forall>s\<in>set missing_skills. \<not> py_in ''Error'' s) \<longrightarrow>
              \<not> py_in result
                  (enhance_resume_section available result resume_text jd_text missing_skills))"
proof -
  have a: "generate_project_ideas available result resume_text skills = project_ideas_fallback"
    using assms by (simp add: generate_project_ideas_def)
  have b: "generate_cover_letter available result resume_text jd_text skills
             = cover_letter_fallback"
    using assms by (simp add: generate_cover_letter_def)
  have c: "enhance_resume_section available result resume_text jd_text missing_skills
             = generate_resume_improvements_fallback resume_text jd_text missing_skills"
    using assms by (simp add: enhance_resume_section_def)
  have d: "enhance_resume_section False result' resume_text jd_text missing_skills
             = generate_resume_improvements_fallback resume_text jd_text missing_skills"
    by (simp add: enhance_resume_section_def)
  have p: "\<not> sublist ''Error:'' project_ideas_fallback"
    by code_simp
  have l: "\<not> sublist ''Error:'' cover_letter_fallback"
    by code_simp
  have e: "\<not> py_in result project_ideas_fallback"
    using contains_error_prefix [OF assms] p by blast
  have f: "\<not> py_in result cover_letter_fallback"
    using contains_error_prefix [OF assms] l by blast
  have g: "\<not> py_in result
             (generate_resume_improvements_fallback resume_text jd_text missing_skills)"
    if "\<forall>s\<in>set missing_skills. \<not> py_in ''Error'' s"
    using contains_error_prefix [OF assms] fallback_no_error that
    unfolding py_in_def by blast
  show ?thesis
    using a b c d e f g by simp
qed

theorem C6_error_gives_fallback_witness:
  "startswith ''Error: Request timed out. Please try again.'' ''Error:''
   \<and> \<not> py_in ''Error'' ''Docker'' \<and> \<not> py_in ''Error'' ''Kubernetes''
   \<and> generate_project_ideas True ''Error: Request timed out. Please try again.''
        ''Resume'' [''Python''] = project_ideas_fallback
   \<and> generate_cover_letter True ''Error: Request timed out. Please try again.''
        ''Resume'' ''Python developer with Docker'' [''Python''] = cover_letter_fallback
   \<and> \<not> py_in ''Error: Request timed out. Please try again.''
         (enhance_resume_section True ''Error: Request timed out. Please try again.''
            ''Resume'' ''Python developer with Docker'' [''Docker'', ''Kubernetes''])"
proof -
  have h: "startswith ''Error: Request timed out. Please try again.'' ''Error:''"
    by code_simp
  have k: "\<not> py_in ''Error'' ''Docker''" "\<not> py_in ''Error'' ''Kubernetes''"
    by code_simp+
  then have "\<forall>s\<in>set [''Docker'', ''Kubernetes'']. \<not> py_in ''Error'' s"
    by simp
  then show ?thesis
    using h k C6_error_gives_fallback [OF h, of True "''Resume''" "[''Python'']"
        "''Python developer with Docker''" "[''Docker'', ''Kubernetes'']" "[]"]
    by blast
qed

end
